theory Spec2Isabelle
  imports Main
begin

section \<open>The SMTP client of \<open>core/smtp_client.go\<close>\<close>

subsection \<open>Values of the Go program\<close>

text \<open>
  Go strings and byte slices are byte sequences; an \<open>error\<close> value is either the result of
  \<open>errors.New\<close> / \<open>fmt.Errorf\<close> (its text), a \<open>textproto.Error\<close> (code and message), or
  an error handed up by the network, TLS or base64 layer (kept by its description).
  A Go \<open>error\<close> that may be \<open>nil\<close> is an \<open>error option\<close>.
\<close>

type_synonym bytes = string

datatype error =
    ErrorString string
  | TextprotoError int string
  | LibError string

text \<open>The triple \<open>(code, msg, err)\<close> every command of the client returns.\<close>

type_synonym reply = "int \<times> string \<times> error option"

subsection \<open>The pieces of the \<open>strings\<close> package the client calls\<close>

text \<open>
  \<open>strings.Split(s, sep)\<close> for a one-byte separator: the fields between the separators, so
  that the empty string gives one empty field.
\<close>

fun Split :: "string \<Rightarrow> char \<Rightarrow> string list" where
  "Split [] sep = [[]]"
| "Split (c # cs) sep =
     (if c = sep then [] # Split cs sep
      else (case Split cs sep of [] \<Rightarrow> [[c]] | f # fs \<Rightarrow> (c # f) # fs))"

text \<open>\<open>strings.SplitN(s, sep, 2)\<close>: cut at the first separator only.\<close>

fun cut :: "string \<Rightarrow> char \<Rightarrow> (string \<times> string) option" where
  "cut [] sep = None"
| "cut (c # cs) sep =
     (if c = sep then Some ([], cs)
      else (case cut cs sep of None \<Rightarrow> None | Some (a, b) \<Rightarrow> Some (c # a, b)))"

definition SplitN2 :: "string \<Rightarrow> char \<Rightarrow> string list" where
  "SplitN2 s sep = (case cut s sep of None \<Rightarrow> [s] | Some (a, b) \<Rightarrow> [a, b])"

text \<open>\<open>strings.Count(s, sep)\<close> for a one-byte separator.\<close>

definition Count :: "string \<Rightarrow> char \<Rightarrow> nat" where
  "Count s sep = length (filter (\<lambda>c. c = sep) s)"

text \<open>
  \<open>strings.ToUpper\<close>. On a string of ASCII bytes the letters a to z move to A to Z and
  nothing else changes. On any other string the result is the Unicode mapping of the
  library (special cases, invalid UTF-8 and all), which is not modelled: it is the parameter
  \<open>unicode_upper\<close>.
\<close>

definition upper_char :: "char \<Rightarrow> char" where
  "upper_char c =
     (let n = (of_char c :: nat) in if 97 \<le> n \<and> n \<le> 122 then char_of (n - 32) else c)"

definition ToUpper :: "(string \<Rightarrow> string) \<Rightarrow> string \<Rightarrow> string" where
  "ToUpper unicode_upper s =
     (if list_all (\<lambda>c. (of_char c :: nat) < 128) s then map upper_char s else unicode_upper s)"

subsection \<open>The transport\<close>

text \<open>
  What the peer and the network do for one command. \<open>s.text.Cmd\<close> (the send) needs
  \<open>send_ms\<close> milliseconds and ends with \<open>send_err\<close>; \<open>s.text.ReadResponse\<close> then needs
  \<open>read_ms\<close> milliseconds and reads \<open>response\<close>: a well-formed reply with its code and its
  message (the lines joined by line feeds, codes stripped), or a read error. Both times are
  finite: a peer that never answers, on which the read would wait for ever, is left out.
\<close>

datatype response = Reply int string | ReadError error

record cmd_io =
  send_ms :: nat
  send_err :: "error option"
  read_ms :: nat
  response :: response

text \<open>What happens on the transport, in order.\<close>

datatype event =
    Sent string
  | Closed
  | TLSClient
  | AuthStart
  | AuthNext bytes bool

text \<open>
  The world outside the client: \<open>script k\<close> is what the transport does for the \<open>k\<close>-th
  command, \<open>issued\<close> counts the commands so far, \<open>clock\<close> is the time in milliseconds and
  \<open>events\<close> the trace.
\<close>

record world =
  script :: "nat \<Rightarrow> cmd_io"
  issued :: nat
  clock :: nat
  events :: "event list"

text \<open>
  \<open>textproto\<close>'s check of a reply against \<open>expectCode\<close>: one, two or three digits are
  compared with the leading digits of the code; any other value (0, -1) accepts every code.
  A mismatch returns the code and the message together with a \<open>textproto.Error\<close>.
\<close>

definition code_mismatch :: "int \<Rightarrow> int \<Rightarrow> bool" where
  "code_mismatch expectCode code =
     (if 1 \<le> expectCode \<and> expectCode < 10 then code div 100 \<noteq> expectCode
      else if 10 \<le> expectCode \<and> expectCode < 100 then code div 10 \<noteq> expectCode
      else if 100 \<le> expectCode \<and> expectCode < 1000 then code \<noteq> expectCode
      else False)"

fun ReadResponse :: "int \<Rightarrow> response \<Rightarrow> reply" where
  "ReadResponse expectCode (Reply code msg) =
     (if code_mismatch expectCode code then (code, msg, Some (TextprotoError code msg))
      else (code, msg, None))"
| "ReadResponse expectCode (ReadError e) = (0, [], Some e)"

subsection \<open>The client\<close>

text \<open>
  Modelled from the spec: the type \<open>Route\<close> is declared outside this file. It has the four
  fields the file reads: the identifier, the local-IP specification (\<open>LocalIp.String\<close>), the
  remote host and the remote port (\<open>RemotePort.Int64\<close>).
\<close>

record Route =
  Id :: int
  LocalIp :: string
  RemoteHost :: string
  RemotePort :: int

text \<open>
  \<open>smtpClient\<close>: \<open>ext\<close> is \<open>None\<close> for the \<open>nil\<close> map, \<open>auth\<close> is \<open>[]\<close> for the \<open>nil\<close> slice,
  \<open>connTLS\<close> holds the TLS configuration once \<open>tls.Client\<close> has wrapped \<open>conn\<close>, and
  \<open>text_tls\<close> tells whether \<open>text\<close> runs over \<open>connTLS\<close>.
\<close>

record smtpClient =
  conn :: nat
  route :: "Route option"
  connTLS :: "nat option"
  text_tls :: bool
  ext :: "(string \<rightharpoonup> string) option"
  tls :: bool
  auth :: "string list"

text \<open>
  \<open>cmd\<close>: the send runs in a goroutine that signals \<open>done\<close>; the \<open>select\<close> waits for \<open>done\<close>
  or for the timer. When the timer fires first the call returns the timeout error. When
  \<open>done\<close> comes first, a failed send returns its error; otherwise the response is read, after
  the \<open>select\<close>, and returned. A send that needs exactly the timer's time loses the race here.
\<close>

definition cmd :: "int \<Rightarrow> int \<Rightarrow> string \<Rightarrow> world \<Rightarrow> reply \<times> world" where
  "cmd timeoutSeconds expectedCode line w =
     (let io = script w (issued w);
          w1 = w\<lparr>issued := Suc (issued w), events := events w @ [Sent line]\<rparr>
      in if int (send_ms io) < timeoutSeconds * 1000
         then (case send_err io of
                 Some e \<Rightarrow> ((0, [], Some e), w1\<lparr>clock := clock w + send_ms io\<rparr>)
               | None \<Rightarrow> (ReadResponse expectedCode (response io),
                           w1\<lparr>clock := clock w + send_ms io + read_ms io\<rparr>))
         else ((0, [], Some (ErrorString ''server do not reply in time -> timeout'')),
               w1\<lparr>clock := clock w + nat (timeoutSeconds * 1000)\<rparr>))"

definition close :: "world \<Rightarrow> world" where
  "close w = w\<lparr>events := events w @ [Closed]\<rparr>"

definition Extension ::
  "(string \<Rightarrow> string) \<Rightarrow> string \<Rightarrow> smtpClient \<Rightarrow> bool \<times> string"
where
  "Extension unicode_upper e s =
     (case ext s of
        None \<Rightarrow> (False, [])
      | Some m \<Rightarrow>
          (case m (ToUpper unicode_upper e) of
             None \<Rightarrow> (False, [])
           | Some param \<Rightarrow> (True, param)))"

text \<open>One line of the EHLO answer put into the extension map.\<close>

definition ext_line :: "(string \<rightharpoonup> string) \<Rightarrow> string \<Rightarrow> (string \<rightharpoonup> string)" where
  "ext_line m line =
     (let args = SplitN2 line CHR '' ''
      in if length args > 1 then m(args ! 0 \<mapsto> args ! 1) else m(args ! 0 \<mapsto> []))"

definition Ehlo :: "string \<Rightarrow> smtpClient \<Rightarrow> world \<Rightarrow> reply \<times> smtpClient \<times> world" where
  "Ehlo me s w =
     (case cmd 10 250 (''EHLO '' @ me) w of
        ((code, msg, err), w1) \<Rightarrow>
          if err \<noteq> None then ((code, msg, err), s, w1)
          else
            let extList = Split msg (CHR 0x0A);
                m = (if length extList > 1 then foldl ext_line Map.empty (tl extList)
                     else Map.empty);
                s1 = (case m ''AUTH'' of
                        Some mechs \<Rightarrow> s\<lparr>auth := Split mechs CHR '' ''\<rparr>
                      | None \<Rightarrow> s)
            in ((code, msg, err), s1\<lparr>ext := Some m\<rparr>, w1))"

definition Helo :: "string \<Rightarrow> smtpClient \<Rightarrow> world \<Rightarrow> reply \<times> smtpClient \<times> world" where
  "Helo me s w =
     (let s1 = s\<lparr>ext := None\<rparr>
      in case cmd 30 250 (''HELO '' @ me) w of (r, w1) \<Rightarrow> (r, s1, w1))"

definition Hello :: "string \<Rightarrow> smtpClient \<Rightarrow> world \<Rightarrow> reply \<times> smtpClient \<times> world" where
  "Hello me s w =
     (case Ehlo me s w of
        ((code, msg, err), s1, w1) \<Rightarrow>
          if err = None then ((code, msg, err), s1, w1) else Helo me s1 w1)"

definition StartTLS :: "string \<Rightarrow> nat \<Rightarrow> smtpClient \<Rightarrow> world \<Rightarrow> reply \<times> smtpClient \<times> world" where
  "StartTLS me config s w =
     (let s1 = s\<lparr>tls := False\<rparr>
      in case cmd 30 220 ''STARTTLS'' w of
           ((code, msg, err), w1) \<Rightarrow>
             if err \<noteq> None then ((code, msg, err), s1, w1)
             else
               let s2 = s1\<lparr>connTLS := Some config, text_tls := True\<rparr>;
                   w2 = w1\<lparr>events := events w1 @ [TLSClient]\<rparr>
               in case Ehlo me s2 w2 of
                    ((code2, msg2, err2), s3, w3) \<Rightarrow>
                      if err2 \<noteq> None then ((code2, msg2, err2), s3, w3)
                      else ((code2, msg2, err2), s3\<lparr>tls := True\<rparr>, w3))"

definition Mail :: "string \<Rightarrow> world \<Rightarrow> reply \<times> world" where
  "Mail from w = cmd 30 250 (''MAIL FROM:<'' @ from @ ''>'') w"


definition Quit :: "world \<Rightarrow> reply \<times> world" where
  "Quit w = (case cmd 10 221 ''QUIT'' w of (r, w1) \<Rightarrow> (r, close w1))"

subsection \<open>AUTH\<close>

text \<open>
  Modelled from the spec: the types \<open>ServerInfo\<close> and \<open>DeliverdAuth\<close> are declared outside
  this file. \<open>ServerInfo\<close> is what \<open>Start\<close> is told: the local name, the TLS flag and the
  advertised mechanisms. The authenticator is a parameter: the two operations of the
  interface, over a state \<open>'a\<close> of its own. A \<open>nil\<close> byte slice is \<open>None\<close>. The local name,
  \<open>Cfg.GetMe()\<close>, is the parameter \<open>me\<close> of the commands that send it.
\<close>

record ServerInfo =
  si_name :: string
  si_tls :: bool
  si_auth :: "string list"

record 'a DeliverdAuth =
  Start :: "'a \<Rightarrow> ServerInfo \<Rightarrow> (string \<times> bytes option \<times> error option) \<times> 'a"
  Next :: "'a \<Rightarrow> bytes \<Rightarrow> bool \<Rightarrow> (bytes option \<times> error option) \<times> 'a"

text \<open>\<open>encoding/base64\<close> as the client uses it: a parameter as well.\<close>

record Encoding =
  Encode :: "bytes \<Rightarrow> string"
  DecodeString :: "string \<Rightarrow> error + bytes"

text \<open>The abort of an exchange: the line \<open>*\<close>, then QUIT; both replies are dropped.\<close>

definition abort_auth :: "world \<Rightarrow> world" where
  "abort_auth w = snd (Quit (snd (cmd 10 501 ''*'' w)))"

text \<open>
  The loop of \<open>Auth\<close>, entered with the reply \<open>(code, msg64, err)\<close> to the last line sent. It
  runs for as long as the authenticator answers and the server replies, so it need not end:
  \<open>None\<close> is the run that never returns. The result \<open>msg\<close> of \<open>Auth\<close> is never assigned (the
  loop declares a \<open>msg\<close> of its own), so the message returned is empty.
\<close>

partial_function (option) auth_loop ::
  "Encoding \<Rightarrow> 'a DeliverdAuth \<Rightarrow> 'a \<Rightarrow> world \<Rightarrow> int \<Rightarrow> string \<Rightarrow> error option
     \<Rightarrow> (reply \<times> 'a \<times> world) option"
where
  "auth_loop enc a st w code msg64 err =
     (if err \<noteq> None then Some ((code, [], err), st, w)
      else
        case (if code = 334 then
                (case DecodeString enc msg64 of Inl e \<Rightarrow> ([], Some e) | Inr m \<Rightarrow> (m, None))
              else if code = 235 then (msg64, None)
              else ([], Some (TextprotoError code msg64))) of
          (msg, Some e) \<Rightarrow> Some ((code, [], Some e), st, abort_auth w)
        | (msg, None) \<Rightarrow>
            (case Next a st msg (code = 334) of
               ((resp, err1), st1) \<Rightarrow>
                 let w1 = w\<lparr>events := events w @ [AuthNext msg (code = 334)]\<rparr>
                 in (case err1 of
                       Some e \<Rightarrow> Some ((code, [], Some e), st1, abort_auth w1)
                     | None \<Rightarrow>
                         (case resp of
                            None \<Rightarrow> Some ((code, [], None), st1, w1)
                          | Some r \<Rightarrow>
                              (case cmd 30 0 (Encode enc r) w1 of
                                 ((code2, msg642, err2), w2) \<Rightarrow>
                                   auth_loop enc a st1 w2 code2 msg642 err2)))))"

definition Auth ::
  "Encoding \<Rightarrow> string \<Rightarrow> 'a DeliverdAuth \<Rightarrow> 'a \<Rightarrow> smtpClient \<Rightarrow> world
     \<Rightarrow> (reply \<times> 'a \<times> world) option"
where
  "Auth enc me a st s w =
     (case Start a st \<lparr>si_name = me, si_tls = tls s, si_auth = auth s\<rparr> of
        ((mech, resp, err), st1) \<Rightarrow>
          let w0 = w\<lparr>events := events w @ [AuthStart]\<rparr>
          in (case err of
                Some e \<Rightarrow> Some ((0, [], Some e), st1, snd (Quit w0))
              | None \<Rightarrow>
                  let resp64 = Encode enc (case resp of None \<Rightarrow> [] | Some r \<Rightarrow> r)
                  in (case cmd 30 0 (''AUTH '' @ mech @ '' '' @ resp64) w0 of
                        ((code, msg64, err0), w1) \<Rightarrow>
                          auth_loop enc a st1 w1 code msg64 err0)))"

subsection \<open>Connecting: \<open>newSMTPClient\<close>\<close>

text \<open>
  A \<open>net.IP\<close> is kept by its printed form, so that \<open>String()\<close> is the identity. Decimal
  printing is what \<open>%d\<close> and \<open>%03d\<close> need; \<open>Error\<close> is the method of that name.
\<close>

type_synonym IP = string

record TCPAddr =
  IP :: IP
  Port :: int

fun utoa :: "nat \<Rightarrow> string" where
  "utoa n = (if n < 10 then [char_of (48 + n)] else utoa (n div 10) @ [char_of (48 + n mod 10)])"

definition itoa :: "int \<Rightarrow> string" where
  "itoa i = (if i < 0 then CHR ''-'' # utoa (nat (- i)) else utoa (nat i))"

definition pad0 :: "nat \<Rightarrow> string \<Rightarrow> string" where
  "pad0 width ds = replicate (width - length ds) CHR ''0'' @ ds"

definition Error :: "error \<Rightarrow> string" where
  "Error e =
     (case e of
        ErrorString text \<Rightarrow> text
      | TextprotoError code msg \<Rightarrow>
          (if code < 0 then CHR ''-'' # pad0 2 (utoa (nat (- code))) else pad0 3 (utoa (nat code)))
            @ '' '' @ msg
      | LibError text \<Rightarrow> text)"

text \<open>
  The first line a server sends: a line with a code, its continuation mark and its text, or a
  failed read. \<open>ReadCodeLine\<close> of \<open>textproto\<close> refuses a code other than the expected one and
  a line marked as continued.
\<close>

datatype line = CodeLine int bool string | LineError error

fun ReadCodeLine :: "int \<Rightarrow> line \<Rightarrow> reply" where
  "ReadCodeLine expectCode (CodeLine code continued msg) =
     (if code_mismatch expectCode code then (code, msg, Some (TextprotoError code msg))
      else if continued
        then (code, msg, Some (LibError (''unexpected multi-line response: '' @ msg)))
      else (code, msg, None))"
| "ReadCodeLine expectCode (LineError e) = (0, [], Some e)"

text \<open>
  One dial: \<open>net.DialTCP\<close> needs \<open>dial_ms\<close> milliseconds and gives a connection or an error;
  \<open>greeting\<close> is what the peer sends first on that connection.
\<close>

record dial_io =
  dial_ms :: nat
  dial_result :: "error + nat"
  greeting :: line

text \<open>
  The network and the other things outside the file, all of them parameters. \<open>IsIPV4\<close> is
  a function of the package defined outside this file. \<open>LookupIP\<close>, \<open>Perm\<close> (\<open>rand.Perm\<close>, which returns a permutation of
  \<open>0..n-1\<close>) and \<open>DialTCP\<close> may answer differently each time: their first argument is the
  number of such calls made before.
\<close>

record net =
  ParseIP :: "string \<Rightarrow> IP option"
  IsIPV4 :: "string \<Rightarrow> bool"
  ResolveTCPAddr :: "string \<Rightarrow> error + TCPAddr"
  LookupIP :: "nat \<Rightarrow> string \<Rightarrow> error + IP list"
  Perm :: "nat \<Rightarrow> nat \<Rightarrow> nat list"
  DialTCP :: "nat \<Rightarrow> TCPAddr \<Rightarrow> TCPAddr \<Rightarrow> dial_io"

text \<open>
  How one attempt on a pair of addresses ended, and the run so far: the calls made to the
  network, the attempts in order, and the lines given to \<open>Log.Debug\<close>.
\<close>

datatype outcome = TimedOut | DialFailed error | BadGreeting error | Greeted

record progress =
  calls :: nat
  attempts :: "(IP \<times> TCPAddr \<times> outcome) list"
  debug :: "string list list"

text \<open>What \<open>newSMTPClient\<close> returns: \<open>(client, err)\<close>, each of them possibly \<open>nil\<close>.\<close>

type_synonym connected = "smtpClient option \<times> error option"

definition attempted :: "IP \<Rightarrow> TCPAddr \<Rightarrow> outcome \<Rightarrow> progress \<Rightarrow> progress" where
  "attempted localIP remoteAddr out p =
     p\<lparr>calls := Suc (calls p), attempts := attempts p @ [(localIP, remoteAddr, out)]\<rparr>"

text \<open>
  The body of the inner loop (lines 105 to 144) for one pair: \<open>None\<close> goes on to the next
  pair, \<open>Some r\<close> returns \<open>r\<close> from the function. In the \<open>done\<close> case the inner \<open>err\<close> of the
  greeting read is local to its block, so the \<open>return nil, err\<close> after it returns the error
  of the dial, which is \<open>nil\<close> when the dial succeeded.
\<close>

definition try_pair ::
  "net \<Rightarrow> Route \<Rightarrow> IP \<Rightarrow> TCPAddr \<Rightarrow> progress \<Rightarrow> connected option \<times> progress"
where
  "try_pair env rt localIP remoteAddr p =
     (if IsIPV4 env localIP \<noteq> IsIPV4 env (IP remoteAddr) then (None, p)
      else
        case ResolveTCPAddr env (localIP @ '':0'') of
          Inl e \<Rightarrow>
            (Some (None, Some (ErrorString (''bad local IP: '' @ localIP @ ''. '' @ Error e))), p)
        | Inr localAddr \<Rightarrow>
            let io = DialTCP env (calls p) localAddr remoteAddr
            in if dial_ms io < 30000 then
                 (case dial_result io of
                    Inr c \<Rightarrow>
                      (case ReadCodeLine 220 (greeting io) of
                         (code, msg, None) \<Rightarrow>
                           (Some (Some \<lparr>conn = c, route = Some rt, connTLS = None,
                                          text_tls = False, ext = None, tls = False,
                                          auth = []\<rparr>, None),
                            attempted localIP remoteAddr Greeted p)
                       | (code, msg, Some e) \<Rightarrow>
                           (Some (None, None), attempted localIP remoteAddr (BadGreeting e) p))
                  | Inl e \<Rightarrow> (Some (None, Some e), attempted localIP remoteAddr (DialFailed e) p))
               else
                 (None, (attempted localIP remoteAddr TimedOut p)
                          \<lparr>debug := debug p @
                             [[''unable to get a SMTP client'', localIP, ''->'', IP remoteAddr,
                               '':'', itoa (Port remoteAddr), ''-'', ''timeout'']]\<rparr>))"

fun try_remotes ::
  "net \<Rightarrow> Route \<Rightarrow> IP \<Rightarrow> TCPAddr list \<Rightarrow> progress \<Rightarrow> connected option \<times> progress"
where
  "try_remotes env rt localIP [] p = (None, p)"
| "try_remotes env rt localIP (remoteAddr # rest) p =
     (case try_pair env rt localIP remoteAddr p of
        (Some r, p1) \<Rightarrow> (Some r, p1)
      | (None, p1) \<Rightarrow> try_remotes env rt localIP rest p1)"

fun try_locals ::
  "net \<Rightarrow> Route \<Rightarrow> IP list \<Rightarrow> TCPAddr list \<Rightarrow> progress \<Rightarrow> connected option \<times> progress"
where
  "try_locals env rt [] remoteAddresses p = (None, p)"
| "try_locals env rt (localIP # rest) remoteAddresses p =
     (case try_remotes env rt localIP remoteAddresses p of
        (Some r, p1) \<Rightarrow> (Some r, p1)
      | (None, p1) \<Rightarrow> try_locals env rt rest remoteAddresses p1)"

text \<open>
  Lines 60 to 65: \<open>rSIps[v] = sIps[i]\<close> for every \<open>i, v\<close> of the permutation, which has the
  length of the list, so that every index is in range.
\<close>

definition shuffle :: "string list \<Rightarrow> nat list \<Rightarrow> string list" where
  "shuffle sIps perm =
     foldl (\<lambda>rSIps (i, v). rSIps[v := sIps ! i]) (replicate (length sIps) [])
       (zip [0..<length perm] perm)"

text \<open>Lines 70 to 76: every string must parse; the first that does not is the error.\<close>

fun parse_ips :: "net \<Rightarrow> Route \<Rightarrow> string list \<Rightarrow> error + IP list" where
  "parse_ips env rt [] = Inr []"
| "parse_ips env rt (ipStr # rest) =
     (case ParseIP env ipStr of
        None \<Rightarrow>
          Inl (ErrorString (''invalid IP '' @ ipStr @ '' found in localIp routes: ''
                              @ LocalIp rt))
      | Some ip \<Rightarrow>
          (case parse_ips env rt rest of Inl e \<Rightarrow> Inl e | Inr ips \<Rightarrow> Inr (ip # ips)))"

text \<open>
  Lines 35 to 76: the local addresses of a route. With a separator present the list is
  split and then always rearranged by the permutation, for \<open>&\<close> as for \<open>|\<close>.
\<close>

definition local_ips :: "net \<Rightarrow> Route \<Rightarrow> progress \<Rightarrow> (error + IP list) \<times> progress" where
  "local_ips env rt p =
     (let failover = (Count (LocalIp rt) CHR ''&'' \<noteq> 0);
          roundRobin = (Count (LocalIp rt) CHR ''|'' \<noteq> 0)
      in if failover \<and> roundRobin then
           (Inl (ErrorString (''failover and round-robin are mixed in route ''
                                @ itoa (Id rt) @ '' for local IP'')), p)
         else if \<not> failover \<and> \<not> roundRobin then
           (parse_ips env rt [LocalIp rt], p)
         else
           let sep = (if failover then CHR ''&'' else CHR ''|'');
               sIps = Split (LocalIp rt) sep;
               perm = Perm env (calls p) (length sIps)
           in (parse_ips env rt (shuffle sIps perm), p\<lparr>calls := Suc (calls p)\<rparr>))"

text \<open>Lines 81 to 100: the remote addresses, from a literal or from the resolver.\<close>

definition remote_addresses ::
  "net \<Rightarrow> Route \<Rightarrow> progress \<Rightarrow> (error + TCPAddr list) \<times> progress"
where
  "remote_addresses env rt p =
     (case ParseIP env (RemoteHost rt) of
        Some ip \<Rightarrow> (Inr [\<lparr>IP = ip, Port = RemotePort rt\<rparr>], p)
      | None \<Rightarrow>
          (case LookupIP env (calls p) (RemoteHost rt) of
             Inl e \<Rightarrow> (Inl e, p\<lparr>calls := Suc (calls p)\<rparr>)
           | Inr ips \<Rightarrow>
               (Inr (map (\<lambda>i. \<lparr>IP = i, Port = RemotePort rt\<rparr>) ips),
                p\<lparr>calls := Suc (calls p)\<rparr>)))"

definition try_route :: "net \<Rightarrow> Route \<Rightarrow> progress \<Rightarrow> connected option \<times> progress" where
  "try_route env rt p =
     (case local_ips env rt p of
        (Inl e, p1) \<Rightarrow> (Some (None, Some e), p1)
      | (Inr localIPs, p1) \<Rightarrow>
          (case remote_addresses env rt p1 of
             (Inl e, p2) \<Rightarrow> (Some (None, Some e), p2)
           | (Inr remoteAddresses, p2) \<Rightarrow> try_locals env rt localIPs remoteAddresses p2))"

fun try_routes :: "net \<Rightarrow> Route list \<Rightarrow> progress \<Rightarrow> connected \<times> progress" where
  "try_routes env [] p =
     ((None, Some (ErrorString ''unable to get a client, all routes have been tested'')), p)"
| "try_routes env (rt # rest) p =
     (case try_route env rt p of
        (Some r, p1) \<Rightarrow> (r, p1)
      | (None, p1) \<Rightarrow> try_routes env rest p1)"

definition newSMTPClient :: "net \<Rightarrow> Route list \<Rightarrow> connected \<times> progress" where
  "newSMTPClient env routes = try_routes env routes \<lparr>calls = 0, attempts = [], debug = []\<rparr>"

subsection \<open>Reading the record of a run\<close>

text \<open>The attempts of a run that ended on a greeting other than 220.\<close>

fun bad_greeting :: "IP \<times> TCPAddr \<times> outcome \<Rightarrow> bool" where
  "bad_greeting (localIP, remoteAddr, BadGreeting e) = True"
| "bad_greeting (localIP, remoteAddr, out) = False"

subsection \<open>Servers, networks and authenticators to run the client against\<close>

text \<open>
  A server that answers each command within a millisecond, one that has hung up, and the
  world in which the commands are answered from a list, with a hangup after its end.
\<close>

definition answer :: "int \<Rightarrow> string \<Rightarrow> cmd_io" where
  "answer code msg = \<lparr>send_ms = 1, send_err = None, read_ms = 1, response = Reply code msg\<rparr>"

definition hangup :: cmd_io where
  "hangup = \<lparr>send_ms = 0, send_err = Some (LibError ''EOF''), read_ms = 0,
              response = ReadError (LibError ''EOF'')\<rparr>"

definition serve :: "cmd_io list \<Rightarrow> world" where
  "serve ios = \<lparr>script = (\<lambda>k. if k < length ios then ios ! k else hangup),
                issued = 0, clock = 0, events = []\<rparr>"

definition client0 :: smtpClient where
  "client0 = \<lparr>conn = 0, route = None, connTLS = None, text_tls = False, ext = None,
              tls = False, auth = []\<rparr>"

definition b64_char :: "nat \<Rightarrow> char" where
  "b64_char n =
     (if n < 26 then char_of (65 + n) else if n < 52 then char_of (71 + n)
      else if n < 62 then char_of (n - 4) else if n = 62 then CHR ''+'' else CHR ''/'')"

fun b64_encode :: "nat list \<Rightarrow> string" where
  "b64_encode [] = []"
| "b64_encode [a] = [b64_char (a div 4), b64_char (a mod 4 * 16), CHR ''='', CHR ''='']"
| "b64_encode [a, b] =
     [b64_char (a div 4), b64_char (a mod 4 * 16 + b div 16), b64_char (b mod 16 * 4), CHR ''='']"
| "b64_encode (a # b # c # rest) =
     [b64_char (a div 4), b64_char (a mod 4 * 16 + b div 16),
      b64_char (b mod 16 * 4 + c div 64), b64_char (c mod 64)] @ b64_encode rest"

definition b64_value :: "char \<Rightarrow> nat option" where
  "b64_value c =
     (let n = (of_char c :: nat)
      in if 65 \<le> n \<and> n \<le> 90 then Some (n - 65)
         else if 97 \<le> n \<and> n \<le> 122 then Some (n - 71)
         else if 48 \<le> n \<and> n \<le> 57 then Some (n + 4)
         else if n = 43 then Some 62
         else if n = 47 then Some 63
         else None)"

fun b64_decode :: "string \<Rightarrow> bytes option" where
  "b64_decode [] = Some []"
| "b64_decode [a, b, c, d] =
     (case (b64_value a, b64_value b) of
        (Some x, Some y) \<Rightarrow>
          (if c = CHR ''='' then
             (if d = CHR ''='' then Some [char_of (x * 4 + y div 16)] else None)
           else
             (case b64_value c of
                None \<Rightarrow> None
              | Some z \<Rightarrow>
                  (if d = CHR ''='' then
                     Some [char_of (x * 4 + y div 16), char_of (y mod 16 * 16 + z div 4)]
                   else
                     (case b64_value d of
                        None \<Rightarrow> None
                      | Some u \<Rightarrow>
                          Some [char_of (x * 4 + y div 16), char_of (y mod 16 * 16 + z div 4),
                                char_of (z mod 4 * 64 + u)]))))
      | _ \<Rightarrow> None)"
| "b64_decode (a # b # c # d # rest) =
     (case (b64_value a, b64_value b, b64_value c, b64_value d) of
        (Some x, Some y, Some z, Some u) \<Rightarrow>
          (case b64_decode rest of
             None \<Rightarrow> None
           | Some bs \<Rightarrow>
               Some (char_of (x * 4 + y div 16) # char_of (y mod 16 * 16 + z div 4)
                       # char_of (z mod 4 * 64 + u) # bs))
      | _ \<Rightarrow> None)"
| "b64_decode _ = None"

definition StdEncoding :: Encoding where
  "StdEncoding =
     \<lparr>Encode = (\<lambda>bs. b64_encode (map of_char bs)),
      DecodeString = (\<lambda>s. case b64_decode (filter (\<lambda>c. c \<noteq> CHR 0x0D \<and> c \<noteq> CHR 0x0A) s) of
                             None \<Rightarrow> Inl (LibError ''illegal base64 data'')
                           | Some bs \<Rightarrow> Inr bs)\<rparr>"

definition plain :: "nat DeliverdAuth" where
  "plain =
     \<lparr>Start = (\<lambda>n info. ((''PLAIN'', Some (CHR 0x00 # ''user'' @ CHR 0x00 # ''secret''), None), Suc n)),
      Next = (\<lambda>n fromServer more.
                if more then ((None, Some (ErrorString ''unexpected server challenge'')), Suc n)
                else ((None, None), Suc n))\<rparr>"

definition lab_net :: net where
  "lab_net =
     \<lparr>ParseIP = (\<lambda>s. if s \<in> set [''10.0.0.1'', ''10.0.0.2'', ''192.0.2.1'', ''192.0.2.2'']
                      then Some s else None),
      IsIPV4 = (\<lambda>s. CHR ''.'' \<in> set s),
      ResolveTCPAddr = (\<lambda>s. case cut s CHR '':'' of
                               Some (h, port) \<Rightarrow> Inr \<lparr>IP = h, Port = 0\<rparr>
                             | None \<Rightarrow> Inl (LibError ''missing port in address'')),
      LookupIP = (\<lambda>k h. if h = ''mx.example.org'' then Inr [''192.0.2.1'', ''192.0.2.2'']
                         else Inl (LibError ''no such host'')),
      Perm = (\<lambda>k n. rev [0..<n]),
      DialTCP = (\<lambda>k localAddr remoteAddr.
                   if IP remoteAddr = ''192.0.2.1''
                   then \<lparr>dial_ms = 20, dial_result = Inr 1,
                         greeting = CodeLine 554 False ''no SMTP service here''\<rparr>
                   else \<lparr>dial_ms = 20, dial_result = Inr 2,
                         greeting = CodeLine 220 False ''mx2.example.org ESMTP''\<rparr>)\<rparr>"

text \<open>Servers that answer slowly, in upper and in lower case, and the routes of the lab.\<close>

definition slow_reply :: cmd_io where
  "slow_reply = \<lparr>send_ms = 1000, send_err = None, read_ms = 100000, response = Reply 250 ''OK''\<rparr>"

definition ehlo_upper :: string where
  "ehlo_upper = ''mx.example.org'' @ [CHR 0x0A] @ ''SIZE 100'' @ [CHR 0x0A] @ ''AUTH PLAIN LOGIN''"

definition ehlo_lower :: string where
  "ehlo_lower = ''mx.example.org'' @ [CHR 0x0A] @ ''size 100'' @ [CHR 0x0A] @ ''auth PLAIN LOGIN''"

definition route_mx :: Route where
  "route_mx = \<lparr>Id = 1, LocalIp = ''10.0.0.1'', RemoteHost = ''mx.example.org'', RemotePort = 25\<rparr>"

definition route_second :: Route where
  "route_second = \<lparr>Id = 2, LocalIp = ''10.0.0.1'', RemoteHost = ''192.0.2.2'', RemotePort = 25\<rparr>"

definition route_failover :: Route where
  "route_failover =
     \<lparr>Id = 3, LocalIp = ''10.0.0.1&10.0.0.2'', RemoteHost = ''mx.example.org'', RemotePort = 25\<rparr>"

text \<open>The session after an EHLO that was answered with \<open>AUTH PLAIN LOGIN\<close>.\<close>

definition after_ehlo :: "reply \<times> smtpClient \<times> world" where
  "after_ehlo =
     Ehlo ''relay.example.org'' client0
       (serve [answer 250 ehlo_upper, answer 250 ''mx.example.org''])"

text \<open>A server that accepts STARTTLS and then fails the TLS handshake.\<close>

definition tls_failure :: cmd_io where
  "tls_failure = \<lparr>send_ms = 5, send_err = Some (LibError ''tls: handshake failure''),
                   read_ms = 0, response = ReadError (LibError ''EOF'')\<rparr>"

definition tls_world :: world where
  "tls_world = serve [answer 220 ''Ready to start TLS'', tls_failure]"

text \<open>The session after an EHLO that was answered in lower case.\<close>

definition after_ehlo_lower :: "reply \<times> smtpClient \<times> world" where
  "after_ehlo_lower = Ehlo ''relay.example.org'' client0 (serve [answer 250 ehlo_lower])"

text \<open>A server that accepts the first line of an AUTH exchange.\<close>

definition auth_world :: world where
  "auth_world = serve [answer 235 ''2.7.0 Authentication successful'']"

text \<open>The attempts of a run that ended on such a greeting, and one more route of the lab.\<close>

definition bad_attempts :: "progress \<Rightarrow> (IP \<times> TCPAddr \<times> outcome) list" where
  "bad_attempts p = filter bad_greeting (attempts p)"

definition route_first :: Route where
  "route_first = \<lparr>Id = 4, LocalIp = ''10.0.0.2'', RemoteHost = ''192.0.2.1'', RemotePort = 587\<rparr>"

section \<open>Properties\<close>

subsection \<open>What a command leaves behind\<close>

lemma cmd_events: "events (snd (cmd t c line w)) = events w @ [Sent line]"
  by (simp add: cmd_def Let_def split: option.splits)

lemma Ehlo_tls: "Ehlo me s w = (r, s', w') \<Longrightarrow> tls s' = tls s"
  by (auto simp: Ehlo_def Let_def split: prod.splits if_splits option.splits)

subsection \<open>The timer of a command\<close>

text \<open>
  Claim C3 says that the send and the read of the response both run inside the race against
  the timer, so that a command whose send and read together take longer than the timeout
  returns the timeout error. In \<open>cmd\<close> only the send is raced: with a timeout of 30 seconds,
  a send that is done after one second and a response that arrives 100 seconds later, the
  call returns the response after 101 seconds, with no error.
\<close>

theorem cmd_slow_reply_not_timed_out:
  "fst (cmd 30 250 ''NOOP'' (serve [slow_reply])) = (250, ''OK'', None)
   \<and> clock (snd (cmd 30 250 ''NOOP'' (serve [slow_reply]))) = 101000"
  by (simp add: cmd_def serve_def slow_reply_def Let_def code_mismatch_def)

subsection \<open>QUIT\<close>

text \<open>
  Claim C8: \<open>Quit\<close> closes the transport in every case. Whatever the transport does for the
  QUIT command (the reply 221, another code, an error, a timeout), the trace of \<open>Quit\<close> is
  the command followed by the close.
\<close>

theorem Quit_closes: "events (snd (Quit w)) = events w @ [Sent ''QUIT'', Closed]"
  using cmd_events[of 10 221 "''QUIT''" w]
  by (cases "cmd 10 221 ''QUIT'' w") (simp add: Quit_def close_def)

text \<open>A QUIT that runs into the timeout: the error is returned and the transport is closed.\<close>

theorem Quit_closes_witness:
  "fst (Quit (serve [slow_reply\<lparr>send_ms := 10000\<rparr>]))
     = (0, [], Some (ErrorString ''server do not reply in time -> timeout''))
   \<and> events (snd (Quit (serve [slow_reply\<lparr>send_ms := 10000\<rparr>]))) = [Sent ''QUIT'', Closed]"
  using Quit_closes[of "serve [slow_reply\<lparr>send_ms := 10000\<rparr>]"]
  by (simp add: Quit_def cmd_def serve_def slow_reply_def Let_def)

subsection \<open>HELO\<close>

text \<open>
  Claim C4 says that \<open>Helo\<close> clears the extension map and the list of mechanisms. It fails
  for the list: after an EHLO that advertised \<open>AUTH PLAIN LOGIN\<close>, a HELO leaves the two
  mechanisms in place.
\<close>

theorem Helo_after_Ehlo_counterexample:
  "auth (fst (snd (Helo ''relay.example.org'' (fst (snd after_ehlo)) (snd (snd after_ehlo)))))
     = [''PLAIN'', ''LOGIN'']
   \<and> auth (fst (snd (Helo ''relay.example.org'' (fst (snd after_ehlo)) (snd (snd after_ehlo)))))
     \<noteq> []"
  apply (simp add: Helo_def Let_def split: prod.splits)
  apply (simp add: after_ehlo_def Ehlo_def cmd_def serve_def answer_def Let_def
      code_mismatch_def ehlo_upper_def ext_line_def SplitN2_def client0_def)
  done

text \<open>
  Claim C4, amended: for every session and whatever the server answers, \<open>Helo\<close> sets the
  extension map to \<open>nil\<close> and leaves the list of mechanisms as it was.
\<close>

theorem Helo_keeps_auth:
  "Helo me s w = (r, s', w') \<Longrightarrow> ext s' = None \<and> auth s' = auth s"
  by (auto simp: Helo_def Let_def split: prod.splits)

theorem Helo_keeps_auth_witness:
  "ext (fst (snd (Helo ''relay.example.org'' (client0\<lparr>auth := [''PLAIN'']\<rparr>)
                   (serve [answer 250 ''mx''])))) = None
   \<and> auth (fst (snd (Helo ''relay.example.org'' (client0\<lparr>auth := [''PLAIN'']\<rparr>)
                       (serve [answer 250 ''mx''])))) = [''PLAIN'']"
  using Helo_keeps_auth[of "''relay.example.org''" "client0\<lparr>auth := [''PLAIN'']\<rparr>"
      "serve [answer 250 ''mx'']"
      "fst (Helo ''relay.example.org'' (client0\<lparr>auth := [''PLAIN'']\<rparr>) (serve [answer 250 ''mx'']))"
      "fst (snd (Helo ''relay.example.org'' (client0\<lparr>auth := [''PLAIN'']\<rparr>)
                  (serve [answer 250 ''mx''])))"
      "snd (snd (Helo ''relay.example.org'' (client0\<lparr>auth := [''PLAIN'']\<rparr>)
                  (serve [answer 250 ''mx''])))"]
  by (simp add: client0_def)

subsection \<open>STARTTLS\<close>

text \<open>
  Claim C7: in \<open>StartTLS\<close> the TLS flag is true at the end exactly when the STARTTLS
  command and the EHLO sent after it over the TLS connection both succeeded. When the
  STARTTLS command fails, or when the EHLO fails (the TLS handshake runs with its send, since
  \<open>tls.Client\<close> itself cannot fail), the flag is false and the error of the failed step is
  the error returned.
\<close>

theorem StartTLS_tls_flag:
  assumes "cmd 30 220 ''STARTTLS'' w = ((c1, m1, e1), w1)"
    and "Ehlo me (s\<lparr>tls := False, connTLS := Some config, text_tls := True\<rparr>)
           (w1\<lparr>events := events w1 @ [TLSClient]\<rparr>) = ((c2, m2, e2), s2, w2)"
    and "StartTLS me config s w = ((code, msg, err), s', w')"
  shows "(tls s' \<longleftrightarrow> e1 = None \<and> e2 = None)
       \<and> (e1 \<noteq> None \<longrightarrow> err = e1 \<and> \<not> tls s')
       \<and> (e1 = None \<and> e2 \<noteq> None \<longrightarrow> err = e2 \<and> \<not> tls s')"
  using assms by (auto simp: StartTLS_def Let_def split: if_splits dest: Ehlo_tls)

text \<open>
  A session whose flag was true, a STARTTLS that is accepted and a handshake that fails: the
  handshake error is returned and the flag is false.
\<close>

theorem StartTLS_tls_flag_witness:
  "snd (snd (fst (StartTLS ''relay.example.org'' 0 (client0\<lparr>tls := True\<rparr>) tls_world)))
     = Some (LibError ''tls: handshake failure'')
   \<and> \<not> tls (fst (snd (StartTLS ''relay.example.org'' 0 (client0\<lparr>tls := True\<rparr>) tls_world)))"
proof -
  let ?w1 = "tls_world\<lparr>issued := 1, clock := 2, events := [Sent ''STARTTLS'']\<rparr>"
  let ?s1 = "client0\<lparr>tls := True\<rparr>\<lparr>tls := False, connTLS := Some 0, text_tls := True\<rparr>"
  have a: "cmd 30 220 ''STARTTLS'' tls_world = ((220, ''Ready to start TLS'', None), ?w1)"
    by (simp add: cmd_def tls_world_def serve_def answer_def Let_def code_mismatch_def)
  have b: "Ehlo ''relay.example.org'' ?s1 (?w1\<lparr>events := events ?w1 @ [TLSClient]\<rparr>)
             = ((0, [], Some (LibError ''tls: handshake failure'')), ?s1,
                ?w1\<lparr>issued := 2, clock := 7,
                     events := [Sent ''STARTTLS'', TLSClient, Sent ''EHLO relay.example.org'']\<rparr>)"
    by (simp add: Ehlo_def cmd_def tls_world_def serve_def tls_failure_def Let_def)
  obtain code msg err s' w' where
    c: "StartTLS ''relay.example.org'' 0 (client0\<lparr>tls := True\<rparr>) tls_world
          = ((code, msg, err), s', w')"
    by (metis prod.exhaust)
  from StartTLS_tls_flag[OF a b c] show ?thesis
    by (simp add: c)
qed

subsection \<open>RCPT\<close>



subsection \<open>EHLO and the extensions\<close>

text \<open>
  Claim C6 says that the extension map is case-insensitive on keywords: a keyword the server
  sent in any letter case is found by a question in any letter case, and the mechanisms of
  AUTH are taken whatever the case of the keyword. \<open>Extension\<close> brings the question to upper
  case, but \<open>Ehlo\<close> stores the keyword as it came and asks the map for the literal \<open>AUTH\<close>.
  After the answer \<open>size 100\<close>, \<open>auth PLAIN LOGIN\<close> neither \<open>Extension("SIZE")\<close> nor
  \<open>Extension("size")\<close> finds the extension and no mechanism is recorded, while after the same
  answer in upper case \<open>Extension("size")\<close> finds it.
\<close>

theorem Extension_misses_lower_case_keyword:
  "Extension unicode_upper ''SIZE'' (fst (snd after_ehlo_lower)) = (False, [])
   \<and> Extension unicode_upper ''size'' (fst (snd after_ehlo_lower)) = (False, [])
   \<and> auth (fst (snd after_ehlo_lower)) = []
   \<and> Extension unicode_upper ''size'' (fst (snd after_ehlo)) = (True, ''100'')"
  by (simp add: after_ehlo_lower_def after_ehlo_def Ehlo_def cmd_def serve_def answer_def Let_def
      code_mismatch_def ehlo_lower_def ehlo_upper_def ext_line_def SplitN2_def client0_def
      Extension_def ToUpper_def upper_char_def char_of_def bit_Suc_0_iff)

subsection \<open>AUTH\<close>

text \<open>
  Claim C5 says that when \<open>Start\<close> gives a mechanism with an initial response and the first
  reply of the server is 235, the loop ends without a call to \<open>Next\<close>. It does call \<open>Next\<close>:
  with the PLAIN authenticator and a server that answers 235 at once, the trace holds one
  call, and the authenticator has been entered twice (\<open>Start\<close> and \<open>Next\<close>).
\<close>

theorem Auth_immediate_success_counterexample:
  "Auth StdEncoding ''relay.example.org'' plain 0 client0 auth_world
     = Some ((235, [], None), 2,
             auth_world\<lparr>issued := 1, clock := 2,
                         events := [AuthStart, Sent ''AUTH PLAIN AHVzZXIAc2VjcmV0'',
                                    AuthNext ''2.7.0 Authentication successful'' False]\<rparr>)"
  apply (simp add: Auth_def plain_def Let_def)
  apply (simp add: StdEncoding_def b64_char_def char_of_def bit_Suc_0_iff)
  apply (simp add: cmd_def auth_world_def serve_def answer_def Let_def code_mismatch_def)
  apply (subst auth_loop.simps)
  apply simp
  done

text \<open>
  Claim C5, amended: when \<open>Start\<close> gives a mechanism with an initial response and the first
  reply of the server is 235, the loop calls \<open>Next\<close> with the text of the reply as it came and
  \<open>more = false\<close> before it can end, and the result of that call decides the rest. With
  neither a response nor an error \<open>Auth\<close> returns the code 235 without error and nothing more
  is sent. With an error the exchange is aborted (the line \<open>*\<close>, then QUIT) and \<open>Auth\<close> returns
  the code 235 with that error. With a response, the response is sent in base64 as the next
  line and the loop goes on with the reply to it.
\<close>

theorem Auth_immediate_success:
  assumes "Start a st \<lparr>si_name = me, si_tls = tls s, si_auth = auth s\<rparr>
             = ((mech, Some resp, None), st1)"
    and "cmd 30 0 (''AUTH '' @ mech @ '' '' @ Encode enc resp) (w\<lparr>events := events w @ [AuthStart]\<rparr>)
           = ((235, msg64, None), w1)"
    and "Next a st1 msg64 False = ((resp2, err2), st2)"
    and "w2 = w1\<lparr>events := events w @ [AuthStart, Sent (''AUTH '' @ mech @ '' '' @ Encode enc resp),
                                      AuthNext msg64 False]\<rparr>"
  shows "Auth enc me a st s w
           = (case err2 of
                Some e \<Rightarrow> Some ((235, [], Some e), st2, abort_auth w2)
              | None \<Rightarrow>
                  (case resp2 of
                     None \<Rightarrow> Some ((235, [], None), st2, w2)
                   | Some r \<Rightarrow>
                       (case cmd 30 0 (Encode enc r) w2 of
                          ((code3, msg643, err3), w3) \<Rightarrow>
                            auth_loop enc a st2 w3 code3 msg643 err3)))"
proof -
  have ev: "events w1 = events w @ [AuthStart, Sent (''AUTH '' @ mech @ '' '' @ Encode enc resp)]"
    using cmd_events[of 30 0 "''AUTH '' @ mech @ '' '' @ Encode enc resp"
        "w\<lparr>events := events w @ [AuthStart]\<rparr>"] assms(2)
    by simp
  have w2: "w1\<lparr>events := events w1 @ [AuthNext msg64 False]\<rparr> = w2"
    by (simp add: assms(4) ev)
  have loop: "auth_loop enc a st1 w1 235 msg64 None
                = (case err2 of
                     Some e \<Rightarrow> Some ((235, [], Some e), st2, abort_auth w2)
                   | None \<Rightarrow>
                       (case resp2 of
                          None \<Rightarrow> Some ((235, [], None), st2, w2)
                        | Some r \<Rightarrow>
                            (case cmd 30 0 (Encode enc r) w2 of
                               ((code3, msg643, err3), w3) \<Rightarrow>
                                 auth_loop enc a st2 w3 code3 msg643 err3)))"
    by (subst auth_loop.simps) (simp add: assms(3) w2 Let_def split: option.splits)
  show ?thesis
    using assms(2) by (simp add: Auth_def assms(1) loop)
qed

text \<open>
  The PLAIN authenticator on a session with TLS, and the reply \<open>235 OK\<close>: one call of \<open>Next\<close>,
  which asks for nothing more.
\<close>

theorem Auth_immediate_success_witness:
  "map_option fst (Auth StdEncoding ''relay.example.org'' plain 5 (client0\<lparr>tls := True\<rparr>)
                     (serve [answer 235 ''OK'']))
     = Some (235, [], None)
   \<and> map_option (fst \<circ> snd) (Auth StdEncoding ''relay.example.org'' plain 5
                     (client0\<lparr>tls := True\<rparr>) (serve [answer 235 ''OK''])) = Some 7
   \<and> map_option (events \<circ> snd \<circ> snd) (Auth StdEncoding ''relay.example.org'' plain 5
                     (client0\<lparr>tls := True\<rparr>) (serve [answer 235 ''OK'']))
     = Some [AuthStart, Sent ''AUTH PLAIN AHVzZXIAc2VjcmV0'', AuthNext ''OK'' False]"
proof -
  let ?s = "client0\<lparr>tls := True\<rparr>"
  let ?w = "serve [answer 235 ''OK'']"
  let ?line = "''AUTH '' @ ''PLAIN'' @ '' ''
                 @ Encode StdEncoding (CHR 0x00 # ''user'' @ CHR 0x00 # ''secret'')"
  let ?w1 = "snd (cmd 30 0 ?line (?w\<lparr>events := events ?w @ [AuthStart]\<rparr>))"
  have a: "Start plain 5 \<lparr>si_name = ''relay.example.org'', si_tls = tls ?s, si_auth = auth ?s\<rparr>
             = ((''PLAIN'', Some (CHR 0x00 # ''user'' @ CHR 0x00 # ''secret''), None), 6)"
    by (simp add: plain_def)
  have b: "cmd 30 0 ?line (?w\<lparr>events := events ?w @ [AuthStart]\<rparr>) = ((235, ''OK'', None), ?w1)"
    by (simp add: cmd_def serve_def answer_def Let_def code_mismatch_def)
  have c: "Next plain 6 ''OK'' False = ((None, None), 7)"
    by (simp add: plain_def)
  have d: "?w1\<lparr>events := events ?w @ [AuthStart, Sent ?line, AuthNext ''OK'' False]\<rparr>
             = ?w1\<lparr>events := events ?w @ [AuthStart, Sent ?line, AuthNext ''OK'' False]\<rparr>"
    by simp
  from Auth_immediate_success[OF a b c d] show ?thesis
    by (simp add: serve_def StdEncoding_def b64_char_def char_of_def bit_Suc_0_iff)
qed

subsection \<open>Connecting\<close>

lemmas lab_defs = newSMTPClient_def try_route_def local_ips_def remote_addresses_def
  try_pair_def attempted_def lab_net_def Count_def Let_def code_mismatch_def shuffle_def

text \<open>
  Claim C1 says that a candidate whose connect succeeds and whose greeting is not 220 is a
  failed attempt after which the search goes on with the next candidate. The function
  returns instead. In the lab \<open>mx.example.org\<close> has two addresses: the first greets with 554,
  the second with 220 (a route to it alone gives a client). \<open>newSMTPClient\<close> makes one
  attempt, on the first, and returns no client and no error.
\<close>

theorem newSMTPClient_stops_at_bad_greeting:
  "newSMTPClient lab_net [route_mx]
     = ((None, None),
        \<lparr>calls = 2,
         attempts = [(''10.0.0.1'', \<lparr>IP = ''192.0.2.1'', Port = 25\<rparr>,
                      BadGreeting (TextprotoError 554 ''no SMTP service here''))],
         debug = []\<rparr>)
   \<and> fst (fst (newSMTPClient lab_net [route_second])) \<noteq> None"
  by (simp add: lab_defs route_mx_def route_second_def)

text \<open>
  Claim C2 says that a failover specification (separator \<open>&\<close>) gives the local addresses
  in the order written. The permutation is applied to it as to a round-robin one: with
  \<open>rand.Perm(2) = [1, 0]\<close> the specification \<open>10.0.0.1&10.0.0.2\<close> gives the second address
  first.
\<close>

theorem local_ips_failover_shuffled:
  "fst (local_ips lab_net route_failover \<lparr>calls = 0, attempts = [], debug = []\<rparr>)
     = Inr [''10.0.0.2'', ''10.0.0.1'']"
  by (simp add: lab_defs route_failover_def)

text \<open>
  A greeting other than 220 is recorded by the attempt that meets it. Every step of the
  search either leaves the recorded bad greetings as they were or returns no client and no
  error.
\<close>

lemma bad_attempts_attempted:
  "bad_attempts (attempted l r out p)
     = bad_attempts p @ (if bad_greeting (l, r, out) then [(l, r, out)] else [])"
  by (simp add: bad_attempts_def attempted_def)

lemma bad_attempts_debug [simp]: "bad_attempts (p\<lparr>debug := d\<rparr>) = bad_attempts p"
  by (simp add: bad_attempts_def)

lemma bad_attempts_calls [simp]: "bad_attempts (p\<lparr>calls := c\<rparr>) = bad_attempts p"
  by (simp add: bad_attempts_def)

lemma try_pair_bad:
  "try_pair env rt l r p = (res, p') \<Longrightarrow>
   bad_attempts p' = bad_attempts p \<or> res = Some (None, None)"
  by (auto simp: try_pair_def Let_def bad_attempts_attempted
      split: if_splits sum.splits prod.splits option.splits)

lemma try_remotes_bad:
  "try_remotes env rt l rs p = (res, p') \<Longrightarrow>
   bad_attempts p' = bad_attempts p \<or> res = Some (None, None)"
proof (induction rs arbitrary: p)
  case Nil
  then show ?case by simp
next
  case (Cons r rs)
  obtain res1 p1 where one: "try_pair env rt l r p = (res1, p1)"
    by (cases "try_pair env rt l r p")
  show ?case
  proof (cases res1)
    case None
    with one Cons.prems have "try_remotes env rt l rs p1 = (res, p')" by simp
    moreover from try_pair_bad[OF one] None have "bad_attempts p1 = bad_attempts p" by simp
    ultimately show ?thesis using Cons.IH[of p1] by simp
  next
    case (Some x)
    with one Cons.prems have "res = res1" "p' = p1" by simp_all
    with try_pair_bad[OF one] show ?thesis by simp
  qed
qed

lemma try_locals_bad:
  "try_locals env rt ls rs p = (res, p') \<Longrightarrow>
   bad_attempts p' = bad_attempts p \<or> res = Some (None, None)"
proof (induction ls arbitrary: p)
  case Nil
  then show ?case by simp
next
  case (Cons l ls)
  obtain res1 p1 where one: "try_remotes env rt l rs p = (res1, p1)"
    by (cases "try_remotes env rt l rs p")
  show ?case
  proof (cases res1)
    case None
    with one Cons.prems have "try_locals env rt ls rs p1 = (res, p')" by simp
    moreover from try_remotes_bad[OF one] None have "bad_attempts p1 = bad_attempts p" by simp
    ultimately show ?thesis using Cons.IH[of p1] by simp
  next
    case (Some x)
    with one Cons.prems have "res = res1" "p' = p1" by simp_all
    with try_remotes_bad[OF one] show ?thesis by simp
  qed
qed

lemma local_ips_bad: "local_ips env rt p = (x, p') \<Longrightarrow> bad_attempts p' = bad_attempts p"
  by (auto simp: local_ips_def Let_def split: if_splits)

lemma remote_addresses_bad:
  "remote_addresses env rt p = (x, p') \<Longrightarrow> bad_attempts p' = bad_attempts p"
  by (auto simp: remote_addresses_def split: option.splits sum.splits)

lemma try_route_bad:
  "try_route env rt p = (res, p') \<Longrightarrow>
   bad_attempts p' = bad_attempts p \<or> res = Some (None, None)"
  by (auto simp: try_route_def split: prod.splits sum.splits
      dest!: local_ips_bad remote_addresses_bad try_locals_bad)

lemma try_routes_bad:
  "try_routes env rts p = (r, p') \<Longrightarrow> bad_attempts p' = bad_attempts p \<or> r = (None, None)"
proof (induction rts arbitrary: p)
  case Nil
  then show ?case by simp
next
  case (Cons rt rts)
  obtain res1 p1 where one: "try_route env rt p = (res1, p1)"
    by (cases "try_route env rt p")
  show ?case
  proof (cases res1)
    case None
    with one Cons.prems have "try_routes env rts p1 = (r, p')" by simp
    moreover from try_route_bad[OF one] None have "bad_attempts p1 = bad_attempts p" by simp
    ultimately show ?thesis using Cons.IH[of p1] by simp
  next
    case (Some x)
    with one Cons.prems have "r = x" "p' = p1" by simp_all
    with try_route_bad[OF one] Some show ?thesis by simp
  qed
qed

text \<open>
  Claim C10: in every call of \<open>newSMTPClient\<close> in which an attempt connected and then read
  a greeting that was not an acceptable 220 line, the function returns a \<open>nil\<close> client
  together with a \<open>nil\<close> error.
\<close>

theorem newSMTPClient_bad_greeting:
  assumes "newSMTPClient env routes = (r, p)"
    and "(localIP, remoteAddr, BadGreeting e) \<in> set (attempts p)"
  shows "r = (None, None)"
proof -
  from assms(1) have "bad_attempts p = [] \<or> r = (None, None)"
    using try_routes_bad[of env routes "\<lparr>calls = 0, attempts = [], debug = []\<rparr>" r p]
    by (simp add: newSMTPClient_def bad_attempts_def)
  moreover from assms(2) have "(localIP, remoteAddr, BadGreeting e) \<in> set (bad_attempts p)"
    by (simp add: bad_attempts_def)
  ultimately show ?thesis by auto
qed

text \<open>The route to the address that greets with 554.\<close>

theorem newSMTPClient_bad_greeting_witness:
  "(''10.0.0.2'', \<lparr>IP = ''192.0.2.1'', Port = 587\<rparr>,
      BadGreeting (TextprotoError 554 ''no SMTP service here''))
     \<in> set (attempts (snd (newSMTPClient lab_net [route_first])))
   \<and> fst (newSMTPClient lab_net [route_first]) = (None, None)"
proof -
  have run: "newSMTPClient lab_net [route_first]
               = (fst (newSMTPClient lab_net [route_first]), snd (newSMTPClient lab_net [route_first]))"
    by simp
  have h: "(''10.0.0.2'', \<lparr>IP = ''192.0.2.1'', Port = 587\<rparr>,
             BadGreeting (TextprotoError 554 ''no SMTP service here''))
           \<in> set (attempts (snd (newSMTPClient lab_net [route_first])))"
    by (simp add: lab_defs route_first_def)
  from newSMTPClient_bad_greeting[OF run h] h show ?thesis by simp
qed

end
